theory Spec2Isabelle
  imports Complex_Main "HOL-Library.AList" "HOL-Library.Sublist"
begin

section \<open>Values, rows and data frames\<close>

text \<open>
  A spreadsheet cell as pandas holds it. \<open>NaN\<close> is the missing value that
  \<open>read_excel\<close> and an unmatched left join produce; \<open>PyNone\<close> is Python's
  \<open>None\<close>, which appears only after \<open>df.replace\<close> on the read path. Numbers are
  modelled by the rational they denote, with the two infinities apart: the rounding of
  float64 and the wrap-around of int64 are outside the model.
\<close>

datatype cell = NaN | PyNone | PosInf | NegInf | Num rat | Str string

text \<open>\<open>pd.isna\<close> / \<open>pd.notna\<close> on a scalar.\<close>

fun isna :: "cell \<Rightarrow> bool" where
  "isna NaN = True"
| "isna PyNone = True"
| "isna _ = False"

definition notna :: "cell \<Rightarrow> bool" where
  "notna c = (\<not> isna c)"

text \<open>
  The library routines whose full behaviour is not re-implemented here are taken as
  parameters:
  \<^item> \<open>re_compile\<close>: \<open>re.compile(pat, re.IGNORECASE)\<close>, \<open>None\<close> when the pattern
    is rejected (\<open>re.error\<close>); a compiled pattern is represented by its
    \<open>search(s) is not None\<close> predicate;
  \<^item> \<open>float_of_str\<close>: the string-to-number conversion inside \<open>pd.to_numeric\<close>,
    \<open>None\<close> when the string is not a number;
  \<^item> \<open>str_of_num\<close>: \<open>str\<close> of a number;
  \<^item> \<open>fecha_strftime\<close>: \<open>pd.to_datetime(x).strftime('%d/%m/%Y')\<close>, \<open>None\<close>
    when either call raises.
\<close>

record pylib =
  re_compile :: "string \<Rightarrow> (string \<Rightarrow> bool) option"
  float_of_str :: "string \<Rightarrow> cell option"
  str_of_num :: "rat \<Rightarrow> string"
  fecha_strftime :: "cell \<Rightarrow> string option"

text \<open>\<open>str(x)\<close>, what \<open>astype(str)\<close> applies to every element of a column.\<close>

fun py_str :: "pylib \<Rightarrow> cell \<Rightarrow> string" where
  "py_str L NaN = ''nan''"
| "py_str L PyNone = ''None''"
| "py_str L PosInf = ''inf''"
| "py_str L NegInf = ''-inf''"
| "py_str L (Num q) = str_of_num L q"
| "py_str L (Str s) = s"

text \<open>
  A row is an association list from column name to value, in column order; a data frame
  is its list of column names and its rows. The column list is kept beside the rows
  because a missing column raises \<open>KeyError\<close> also when the frame has no rows.
\<close>

type_synonym row = "(string \<times> cell) list"

record dataframe =
  columns :: "string list"
  rows :: "row list"

datatype error =
  NotReady
| FileNotFound
| KeyError string
| IndexError
| ReError
| ValueError
| HTTPException nat

text \<open>Reading one cell of a row; a name the row lacks reads as missing.\<close>

definition cell_of :: "row \<Rightarrow> string \<Rightarrow> cell" where
  "cell_of r c = (case map_of r c of Some v \<Rightarrow> v | None \<Rightarrow> NaN)"

text \<open>\<open>df[c]\<close>: the column as a list of values, \<open>KeyError\<close> when absent.\<close>

definition get_col :: "dataframe \<Rightarrow> string \<Rightarrow> error + cell list" where
  "get_col df c =
     (if c \<in> set (columns df) then Inr (map (\<lambda>r. cell_of r c) (rows df))
      else Inl (KeyError c))"

text \<open>
  \<open>df[c] = values\<close>: an existing column is overwritten in place, a new one is appended
  on the right.
\<close>

definition set_col :: "dataframe \<Rightarrow> string \<Rightarrow> cell list \<Rightarrow> dataframe" where
  "set_col df c vs =
     \<lparr> columns = (if c \<in> set (columns df) then columns df else columns df @ [c]),
       rows = map (\<lambda>(r, v). AList.update c v r) (zip (rows df) vs) \<rparr>"

text \<open>\<open>df[mask]\<close>: the rows whose mask entry is true, in order.\<close>

definition select_rows :: "dataframe \<Rightarrow> bool list \<Rightarrow> dataframe" where
  "select_rows df keep =
     \<lparr> columns = columns df, rows = map fst (filter snd (zip (rows df) keep)) \<rparr>"

text \<open>\<open>a.iloc[:, 1:]\<close>: drop the first column.\<close>

definition drop_first_col :: "dataframe \<Rightarrow> dataframe" where
  "drop_first_col df = \<lparr> columns = tl (columns df), rows = map tl (rows df) \<rparr>"

section \<open>Reference deduplicator\<close>

text \<open>
  \<open>Series.duplicated()\<close> with the default \<open>keep='first'\<close>: an entry is marked when
  an equal value occurred before it. Missing values count as equal to each other.
\<close>

fun duplicated_from :: "'a list \<Rightarrow> 'a list \<Rightarrow> bool list" where
  "duplicated_from seen [] = []"
| "duplicated_from seen (x # xs) = (x \<in> set seen) # duplicated_from (x # seen) xs"

definition duplicated :: "'a list \<Rightarrow> bool list" where
  "duplicated xs = duplicated_from [] xs"

text \<open>The composite key of one reference row: \<open>str(Modelo) + '-' + str(Codigo)\<close>.\<close>

definition composite_id :: "pylib \<Rightarrow> row \<Rightarrow> string" where
  "composite_id L r = py_str L (cell_of r ''Modelo'') @ ''-'' @ py_str L (cell_of r ''Codigo'')"

text \<open>
  Lines 195 to 199 of \<open>obtener_datos\<close> (the same five lines open \<open>exportar_datos\<close>):
  \<^verbatim>\<open>
  a = a.iloc[:, 1:]
  a['ID'] = a['Modelo'].astype(str) + '-' + a['Codigo'].astype(str)
  b = a[~a['ID'].duplicated()]
  b = b[~b['Modelo'].duplicated()]
  b['Codigo_Comercial'] = b['Modelo']
  \<close>
\<close>

definition deduplicate :: "pylib \<Rightarrow> dataframe \<Rightarrow> error + dataframe" where
  "deduplicate L a0 =
     (let a = drop_first_col a0 in
      if ''Modelo'' \<notin> set (columns a) then Inl (KeyError ''Modelo'')
      else if ''Codigo'' \<notin> set (columns a) then Inl (KeyError ''Codigo'')
      else
        let a1 = set_col a ''ID'' (map (\<lambda>r. Str (composite_id L r)) (rows a));
            b1 = select_rows a1 (map Not (duplicated (map (\<lambda>r. cell_of r ''ID'') (rows a1))));
            b2 = select_rows b1 (map Not (duplicated (map (\<lambda>r. cell_of r ''Modelo'') (rows b1))))
        in Inr (set_col b2 ''Codigo_Comercial'' (map (\<lambda>r. cell_of r ''Modelo'') (rows b2))))"

section \<open>Join and normalise\<close>

text \<open>
  \<open>pd.merge(c, b, how='left', on=key)\<close>. The key must be a column of both frames. A
  column name other than the key that both frames have gets the suffix \<open>_x\<close> on the left
  and \<open>_y\<close> on the right. Every left row is emitted once per right row with an equal
  key, in right order, or once with missing values in the right columns when there is
  none; left order is kept.
\<close>

definition left_name :: "dataframe \<Rightarrow> dataframe \<Rightarrow> string \<Rightarrow> string \<Rightarrow> string" where
  "left_name c b key n =
     (if n \<noteq> key \<and> n \<in> set (columns b) then n @ ''_x'' else n)"

definition right_name :: "dataframe \<Rightarrow> dataframe \<Rightarrow> string \<Rightarrow> string \<Rightarrow> string" where
  "right_name c b key n =
     (if n \<in> set (columns c) then n @ ''_y'' else n)"

definition right_cols :: "dataframe \<Rightarrow> string \<Rightarrow> string list" where
  "right_cols b key = filter (\<lambda>n. n \<noteq> key) (columns b)"

definition left_part :: "dataframe \<Rightarrow> dataframe \<Rightarrow> string \<Rightarrow> row \<Rightarrow> row" where
  "left_part c b key l = map (\<lambda>n. (left_name c b key n, cell_of l n)) (columns c)"

definition right_part :: "dataframe \<Rightarrow> dataframe \<Rightarrow> string \<Rightarrow> row \<Rightarrow> row" where
  "right_part c b key m = map (\<lambda>n. (right_name c b key n, cell_of m n)) (right_cols b key)"

definition right_missing :: "dataframe \<Rightarrow> dataframe \<Rightarrow> string \<Rightarrow> row" where
  "right_missing c b key = map (\<lambda>n. (right_name c b key n, NaN)) (right_cols b key)"

definition join_row :: "dataframe \<Rightarrow> dataframe \<Rightarrow> string \<Rightarrow> row \<Rightarrow> row list" where
  "join_row c b key l =
     (case filter (\<lambda>m. cell_of m key = cell_of l key) (rows b) of
        [] \<Rightarrow> [left_part c b key l @ right_missing c b key]
      | ms \<Rightarrow> map (\<lambda>m. left_part c b key l @ right_part c b key m) ms)"

definition merge_left :: "dataframe \<Rightarrow> dataframe \<Rightarrow> string \<Rightarrow> error + dataframe" where
  "merge_left c b key =
     (if key \<notin> set (columns c) \<or> key \<notin> set (columns b) then Inl (KeyError key)
      else Inr \<lparr> columns = map (left_name c b key) (columns c)
                            @ map (right_name c b key) (right_cols b key),
                 rows = concat (map (join_row c b key) (rows c)) \<rparr>)"

text \<open>
  \<open>pd.to_numeric(col, errors='coerce').fillna(0)\<close> on one value: what is not a number
  becomes NaN, and NaN becomes 0.
\<close>

fun to_numeric :: "pylib \<Rightarrow> cell \<Rightarrow> cell" where
  "to_numeric L (Str s) = (case float_of_str L s of Some v \<Rightarrow> v | None \<Rightarrow> NaN)"
| "to_numeric L PyNone = NaN"
| "to_numeric L c = c"

definition fillna0 :: "cell \<Rightarrow> cell" where
  "fillna0 c = (if isna c then Num 0 else c)"

definition coerce :: "pylib \<Rightarrow> cell \<Rightarrow> cell" where
  "coerce L c = fillna0 (to_numeric L c)"

text \<open>Multiplication and addition of float values, with the IEEE rules for infinities.\<close>

fun sign_inf :: "bool \<Rightarrow> cell" where
  "sign_inf True = PosInf"
| "sign_inf False = NegInf"

fun num_mul :: "cell \<Rightarrow> cell \<Rightarrow> cell" where
  "num_mul (Num a) (Num b) = Num (a * b)"
| "num_mul (Num a) PosInf = (if a = 0 then NaN else sign_inf (0 < a))"
| "num_mul (Num a) NegInf = (if a = 0 then NaN else sign_inf (a < 0))"
| "num_mul PosInf (Num b) = (if b = 0 then NaN else sign_inf (0 < b))"
| "num_mul NegInf (Num b) = (if b = 0 then NaN else sign_inf (b < 0))"
| "num_mul PosInf PosInf = PosInf"
| "num_mul PosInf NegInf = NegInf"
| "num_mul NegInf PosInf = NegInf"
| "num_mul NegInf NegInf = PosInf"
| "num_mul _ _ = NaN"

fun num_add :: "cell \<Rightarrow> cell \<Rightarrow> cell" where
  "num_add (Num a) (Num b) = Num (a + b)"
| "num_add (Num a) PosInf = PosInf"
| "num_add (Num a) NegInf = NegInf"
| "num_add PosInf (Num b) = PosInf"
| "num_add NegInf (Num b) = NegInf"
| "num_add PosInf PosInf = PosInf"
| "num_add NegInf NegInf = NegInf"
| "num_add _ _ = NaN"

text \<open>
  Lines 202 to 208 on one joined row:
  \<^verbatim>\<open>
  df['PCU1'] = pd.to_numeric(df['PCU1'], errors='coerce').fillna(0)
  df['Cantidad'] = pd.to_numeric(df['Cantidad'], errors='coerce').fillna(0)
  df['Flete_US$'] = pd.to_numeric(df['Flete_US$'], errors='coerce').fillna(0)
  df['Sub Total'] = df['PCU1'] * df['Cantidad']
  df['Precio Total'] = df['Sub Total'] + df['Flete_US$']
  \<close>
\<close>

definition map_col :: "dataframe \<Rightarrow> string \<Rightarrow> (row \<Rightarrow> cell) \<Rightarrow> dataframe" where
  "map_col df c f = set_col df c (map f (rows df))"

definition normalise_read :: "pylib \<Rightarrow> dataframe \<Rightarrow> error + dataframe" where
  "normalise_read L df =
     (if ''PCU1'' \<notin> set (columns df) then Inl (KeyError ''PCU1'')
      else if ''Cantidad'' \<notin> set (columns df) then Inl (KeyError ''Cantidad'')
      else if ''Flete_US$'' \<notin> set (columns df) then Inl (KeyError ''Flete_US$'')
      else
        let d1 = map_col df ''PCU1'' (\<lambda>r. coerce L (cell_of r ''PCU1''));
            d2 = map_col d1 ''Cantidad'' (\<lambda>r. coerce L (cell_of r ''Cantidad''));
            d3 = map_col d2 ''Flete_US$'' (\<lambda>r. coerce L (cell_of r ''Flete_US$''));
            d4 = map_col d3 ''Sub Total''
                   (\<lambda>r. num_mul (cell_of r ''PCU1'') (cell_of r ''Cantidad''));
            d5 = map_col d4 ''Precio Total''
                   (\<lambda>r. num_add (cell_of r ''Sub Total'') (cell_of r ''Flete_US$''))
        in Inr d5)"

section \<open>Column selection, renaming and filtering\<close>

text \<open>Sequencing of steps that may raise.\<close>

definition and_then :: "error + 'a \<Rightarrow> ('a \<Rightarrow> error + 'b) \<Rightarrow> error + 'b" where
  "and_then m f = (case m of Inl e \<Rightarrow> Inl e | Inr x \<Rightarrow> f x)"

text \<open>
  The three display names with a character outside ASCII (the shipment number, the
  purchase order number and the country of origin), as their UTF-8 bytes.
\<close>

definition col_embarque :: string where
  "col_embarque = ''N'' @ [CHR 0xC2, CHR 0xBA] @ '' EMBARQUE''"

definition col_ocompra :: string where
  "col_ocompra = ''N'' @ [CHR 0xC2, CHR 0xBA] @ '' O.COMPRA''"

definition col_pais :: string where
  "col_pais = ''Pa'' @ [CHR 0xC3, CHR 0xAD] @ ''s De Origen''"

text \<open>\<open>df[[c1, ..., cn]]\<close>: the named columns in the given order.\<close>

definition select_cols :: "dataframe \<Rightarrow> string list \<Rightarrow> error + dataframe" where
  "select_cols df cs =
     (case filter (\<lambda>c. c \<notin> set (columns df)) cs of
        [] \<Rightarrow> Inr \<lparr> columns = cs, rows = map (\<lambda>r. map (\<lambda>c. (c, cell_of r c)) cs) (rows df) \<rparr>
      | m # _ \<Rightarrow> Inl (KeyError m))"

definition read_columns :: "string list" where
  "read_columns =
     [''Item'', ''Cantidad'', ''Num_OC'', ''Num_invoice'', ''Codigo'', ''Modelo'',
      ''Descripcion'', ''Material'', ''Uso'', ''PaisOrigen'', ''Moneda'', ''PCU1'',
      ''Sub Total'', ''Flete_US$'', ''Precio Total'', ''OperadorLogistico'',
      ''Fecha_Invoice'', ''GrupoImportacion'', ''Num_DocTransporte'',
      ''RazonSocial_Proveedor'', ''Incoterm'', ''Forma_Pago'', ''Status_OCI'', ''Marca'']"

definition new_columns :: "(string \<times> string) list" where
  "new_columns =
     [(''Cantidad'', ''Cant''),
      (''Num_OC'', col_ocompra),
      (''Num_invoice'', ''FACTURA''),
      (''PaisOrigen'', col_pais),
      (''PCU1'', ''Precio Unitario''),
      (''Flete_US$'', ''Flete''),
      (''OperadorLogistico'', ''TRANSPORTISTA''),
      (''Fecha_Invoice'', ''FECHA FACTURA''),
      (''GrupoImportacion'', col_embarque),
      (''Num_DocTransporte'', ''Air Waybill''),
      (''RazonSocial_Proveedor'', ''PROVEEDOR''),
      (''Incoterm'', ''INCOTERM''),
      (''Forma_Pago'', ''FORMA DE PAGO''),
      (''Status_OCI'', ''ESTADO'')]"

definition new_name :: "string \<Rightarrow> string" where
  "new_name n = (case map_of new_columns n of Some n' \<Rightarrow> n' | None \<Rightarrow> n)"

text \<open>\<open>df.rename(columns=new_columns, inplace=True)\<close>.\<close>

definition rename :: "dataframe \<Rightarrow> dataframe" where
  "rename df =
     \<lparr> columns = map new_name (columns df),
       rows = map (map (\<lambda>(n, v). (new_name n, v))) (rows df) \<rparr>"

datatype mode = Embarque | Waybill

definition target_column :: "mode \<Rightarrow> string" where
  "target_column t = (case t of Embarque \<Rightarrow> col_embarque | Waybill \<Rightarrow> ''Air Waybill'')"

text \<open>\<open>col.astype(str)\<close>: every element, a missing one too, becomes its \<open>str\<close>.\<close>

definition astype_str :: "pylib \<Rightarrow> cell list \<Rightarrow> cell list" where
  "astype_str L vs = map (\<lambda>v. Str (py_str L v)) vs"

text \<open>
  \<open>col.str.contains(pat, case=False, na=False)\<close>. The pattern is a regular expression
  (\<open>regex=True\<close> is the default) and is compiled before any element is looked at; an
  element that is not a string yields the \<open>na\<close> value, here \<open>False\<close>.
\<close>

definition str_contains :: "pylib \<Rightarrow> string \<Rightarrow> cell list \<Rightarrow> error + bool list" where
  "str_contains L pat vs =
     (case re_compile L pat of
        None \<Rightarrow> Inl ReError
      | Some search \<Rightarrow> Inr (map (\<lambda>v. case v of Str s \<Rightarrow> search s | _ \<Rightarrow> False) vs))"

text \<open>
  The filter step of both endpoints:
  \<^verbatim>\<open>
  df[df[col].astype(str).str.contains(value, case=False, na=False)]
  \<close>
\<close>

definition filter_rows :: "pylib \<Rightarrow> mode \<Rightarrow> string \<Rightarrow> dataframe \<Rightarrow> error + dataframe" where
  "filter_rows L t v df =
     and_then (get_col df (target_column t)) (\<lambda>vs.
     and_then (str_contains L v (astype_str L vs)) (\<lambda>keep.
     Inr (select_rows df keep)))"

section \<open>Summary record\<close>

record summary_info =
  transportista :: cell
  fecha_factura :: cell
  embarque :: cell
  air_waybill :: cell
  marca :: cell
  proveedor :: cell
  incoterm :: cell
  forma_pago :: cell
  estado :: cell

text \<open>\<open>df.iloc[0]\<close>: the first row, \<open>IndexError\<close> on a frame without rows.\<close>

definition iloc0 :: "dataframe \<Rightarrow> error + row" where
  "iloc0 df = (case rows df of [] \<Rightarrow> Inl IndexError | r # _ \<Rightarrow> Inr r)"

text \<open>\<open>x if pd.notna(x) else ""\<close>.\<close>

definition or_empty :: "cell \<Rightarrow> cell" where
  "or_empty x = (if notna x then x else Str [])"

text \<open>\<open>str(x) if pd.notna(x) else ""\<close>.\<close>

definition str_or_empty :: "pylib \<Rightarrow> cell \<Rightarrow> cell" where
  "str_or_empty L x = (if notna x then Str (py_str L x) else Str [])"

definition info_columns :: "string list" where
  "info_columns =
     [''TRANSPORTISTA'', ''FECHA FACTURA'', col_embarque, ''Air Waybill'', ''Marca'',
      ''PROVEEDOR'', ''INCOTERM'', ''FORMA DE PAGO'', ''ESTADO'']"

text \<open>
  The \<open>info\<close> dictionary built from \<open>primera_fila\<close>; reading a field the row does not
  have raises \<open>KeyError\<close>, in the order the dictionary is written.
\<close>

definition make_info :: "pylib \<Rightarrow> string list \<Rightarrow> row \<Rightarrow> error + summary_info" where
  "make_info L cols r =
     (case filter (\<lambda>c. c \<notin> set cols) info_columns of
        m # _ \<Rightarrow> Inl (KeyError m)
      | [] \<Rightarrow> Inr
          \<lparr> transportista = or_empty (cell_of r ''TRANSPORTISTA''),
            fecha_factura = str_or_empty L (cell_of r ''FECHA FACTURA''),
            embarque = or_empty (cell_of r col_embarque),
            air_waybill = or_empty (cell_of r ''Air Waybill''),
            marca = or_empty (cell_of r ''Marca''),
            proveedor = or_empty (cell_of r ''PROVEEDOR''),
            incoterm = or_empty (cell_of r ''INCOTERM''),
            forma_pago = or_empty (cell_of r ''FORMA DE PAGO''),
            estado = or_empty (cell_of r ''ESTADO'') \<rparr>)"

section \<open>Workbook\<close>

text \<open>
  A worksheet: its cells by (row, column), both counted from 1, and its named tables,
  each by the four boundaries that \<open>range_boundaries(table.ref)\<close> returns. A formula is a
  string cell that starts with the equals sign, as in openpyxl.
\<close>

record table_ref =
  min_col :: nat
  min_row :: nat
  max_col :: nat
  max_row :: nat

record worksheet =
  cells :: "nat \<times> nat \<Rightarrow> cell option"
  tables :: "string \<Rightarrow> table_ref option"

section \<open>Server state and responses\<close>

text \<open>
  The process-wide flag and the files of the download directory as the two endpoints see
  them: each file is absent or holds what \<open>read_excel\<close> / \<open>load_workbook\<close> returns
  for it.
\<close>

record server =
  archivos_inicializados :: bool
  traduccion :: "dataframe option"
  compras :: "dataframe option"
  plantilla :: "worksheet option"

definition read_file :: "'a option \<Rightarrow> error + 'a" where
  "read_file f = (case f of None \<Rightarrow> Inl FileNotFound | Some d \<Rightarrow> Inr d)"

datatype response =
  JsonResponse (data: "row list") (info: "summary_info option") (mensaje: "string option")
| FileResponse worksheet

section \<open>The read endpoint\<close>

text \<open>\<open>df.replace({np.nan: None, np.inf: None, -np.inf: None})\<close>.\<close>

fun replace_value :: "cell \<Rightarrow> cell" where
  "replace_value NaN = PyNone"
| "replace_value PosInf = PyNone"
| "replace_value NegInf = PyNone"
| "replace_value c = c"

definition replace_nonfinite :: "dataframe \<Rightarrow> dataframe" where
  "replace_nonfinite df =
     \<lparr> columns = columns df, rows = map (map (\<lambda>(n, v). (n, replace_value v))) (rows df) \<rparr>"

definition stringify_fecha :: "pylib \<Rightarrow> dataframe \<Rightarrow> dataframe" where
  "stringify_fecha L df =
     (if ''FECHA FACTURA'' \<in> set (columns df)
      then map_col df ''FECHA FACTURA'' (\<lambda>r. Str (py_str L (cell_of r ''FECHA FACTURA'')))
      else df)"

definition mode_name :: "mode \<Rightarrow> string" where
  "mode_name t = (case t of Embarque \<Rightarrow> ''embarque'' | Waybill \<Rightarrow> ''waybill'')"

definition no_results :: "mode \<Rightarrow> string \<Rightarrow> string" where
  "no_results t v = ''No se encontraron resultados para '' @ mode_name t @ '': '' @ v"

text \<open>The two loads and the join, lines 194 to 201 (and 292 to 299).\<close>

definition load_and_join :: "pylib \<Rightarrow> server \<Rightarrow> error + dataframe" where
  "load_and_join L srv =
     and_then (read_file (traduccion srv)) (\<lambda>a.
     and_then (deduplicate L a) (\<lambda>b.
     and_then (read_file (compras srv)) (\<lambda>c.
     merge_left c b ''Codigo_Comercial'')))"

text \<open>The pipeline of \<open>obtener_datos\<close> up to and including the filter, lines 194 to 238.\<close>

definition datos_filtered :: "pylib \<Rightarrow> server \<Rightarrow> mode \<Rightarrow> string \<Rightarrow> error + dataframe" where
  "datos_filtered L srv t v =
     and_then (load_and_join L srv) (\<lambda>df.
     and_then (normalise_read L df) (\<lambda>df.
     and_then (select_cols df read_columns) (\<lambda>df.
     filter_rows L t v (rename df))))"

text \<open>The body of the \<open>try\<close> block of \<open>obtener_datos\<close>.\<close>

definition datos_body :: "pylib \<Rightarrow> server \<Rightarrow> mode \<Rightarrow> string \<Rightarrow> error + response" where
  "datos_body L srv t v =
     and_then (datos_filtered L srv t v) (\<lambda>df.
       if rows df = [] then Inr (JsonResponse [] None (Some (no_results t v)))
       else
         let df = stringify_fecha L (replace_nonfinite df) in
         and_then (iloc0 df) (\<lambda>primera_fila.
         and_then (make_info L (columns df) primera_fila) (\<lambda>i.
         Inr (JsonResponse (rows df) (Some i) None))))"

text \<open>
  \<open>GET /data\<close>: the result is the HTTP status of the error raised, or the response sent
  with status 200. The readiness check is outside the \<open>try\<close> block; inside it,
  \<open>FileNotFoundError\<close> becomes 404, \<open>KeyError\<close> 400 and any other exception 500.
\<close>

definition obtener_datos :: "pylib \<Rightarrow> server \<Rightarrow> mode \<Rightarrow> string \<Rightarrow> nat + response" where
  "obtener_datos L srv t v =
     (if \<not> archivos_inicializados srv then Inl 503
      else case datos_body L srv t v of
             Inr r \<Rightarrow> Inr r
           | Inl FileNotFound \<Rightarrow> Inl 404
           | Inl (KeyError _) \<Rightarrow> Inl 400
           | Inl _ \<Rightarrow> Inl 500)"

section \<open>The export endpoint\<close>

text \<open>A row number in decimal, as the f-strings of the formulas print it.\<close>

definition digit :: "nat \<Rightarrow> char" where
  "digit d = char_of (48 + d)"

function dec :: "nat \<Rightarrow> string" where
  "dec n = (if n < 10 then [digit n] else dec (n div 10) @ [digit (n mod 10)])"
  by pat_completeness auto
termination
  by (relation "measure id") auto

definition export_columns :: "string list" where
  "export_columns =
     [''Item'', ''Cant'', col_ocompra, ''FACTURA'', ''Codigo'', ''Modelo'', ''Descripcion'',
      ''Material'', ''Uso'', col_pais, ''Moneda'', ''Precio Unitario'', ''Sub Total'',
      ''Flete'', ''Precio Total'']"

text \<open>
  \<open>ws.cell(row=r, column=c, value=v)\<close> leaves the cell as it is when \<open>v\<close> is
  \<open>None\<close>; \<open>ws[coordinate] = v\<close> always stores.
\<close>

definition set_cell :: "worksheet \<Rightarrow> nat \<times> nat \<Rightarrow> cell \<Rightarrow> worksheet" where
  "set_cell ws rc v = ws\<lparr>cells := (cells ws)(rc \<mapsto> v)\<rparr>"

definition put_cell :: "worksheet \<Rightarrow> nat \<times> nat \<Rightarrow> cell \<Rightarrow> worksheet" where
  "put_cell ws rc v = (if v = PyNone then ws else set_cell ws rc v)"

text \<open>The inner loop: the values of one row, from column \<open>c\<close> rightwards.\<close>

fun write_row :: "worksheet \<Rightarrow> nat \<Rightarrow> nat \<Rightarrow> cell list \<Rightarrow> worksheet" where
  "write_row ws r c [] = ws"
| "write_row ws r c (v # vs) = write_row (put_cell ws (r, c) v) r (Suc c) vs"

text \<open>
  The outer loop: row \<open>r\<close> is the next \<open>row_idx\<close>, \<open>lr\<close> the current value of
  \<open>last_row\<close>; the result is the sheet and the final \<open>last_row\<close>.
\<close>

fun write_rows :: "worksheet \<Rightarrow> nat \<Rightarrow> nat \<Rightarrow> cell list list \<Rightarrow> nat \<Rightarrow> worksheet \<times> nat" where
  "write_rows ws r mc [] lr = (ws, lr)"
| "write_rows ws r mc (vs # rest) lr = write_rows (write_row ws r mc vs) (Suc r) mc rest r"

text \<open>
  The formula loop: column N is 14, column P is 16.
  \<^verbatim>\<open>
  for row in range(start_row, last_row + 1):
      ws[f'N{row}'] = f'=M{row}*C{row}'
      ws[f'P{row}'] = f'=O{row}+N{row}'
  \<close>
\<close>

definition sub_total_formula :: "nat \<Rightarrow> string" where
  "sub_total_formula r = ''=M'' @ dec r @ ''*C'' @ dec r"

definition precio_total_formula :: "nat \<Rightarrow> string" where
  "precio_total_formula r = ''=O'' @ dec r @ ''+N'' @ dec r"

definition write_formula_row :: "worksheet \<Rightarrow> nat \<Rightarrow> worksheet" where
  "write_formula_row ws r =
     set_cell (set_cell ws (r, 14) (Str (sub_total_formula r)))
              (r, 16) (Str (precio_total_formula r))"

definition write_formulas :: "worksheet \<Rightarrow> nat \<Rightarrow> nat \<Rightarrow> worksheet" where
  "write_formulas ws start_row last_row = foldl write_formula_row ws [start_row ..< last_row + 1]"

text \<open>
  Lines 352 to 369: append the rows below the table \<open>Tabla24\<close>, extend its range, write
  the formulas. \<open>dataframe_to_rows(df, index=False, header=False)\<close> yields the values
  of each row in column order.
\<close>

definition append_to_table :: "worksheet \<Rightarrow> dataframe \<Rightarrow> error + worksheet" where
  "append_to_table ws df =
     (case tables ws ''Tabla24'' of
        None \<Rightarrow> Inl (KeyError ''Tabla24'')
      | Some t \<Rightarrow>
          let start_row = max_row t + 1;
              (ws1, last_row) = write_rows ws start_row (min_col t) (map (map snd) (rows df))
                                  (start_row - 1);
              ws2 = ws1\<lparr>tables := (tables ws1)(''Tabla24'' \<mapsto> t\<lparr>max_row := last_row\<rparr>)\<rparr>
          in Inr (write_formulas ws2 start_row last_row))"

text \<open>Lines 371 to 382: the summary cells D2, D4, D5 and K2 to K6.\<close>

definition stamp_info :: "pylib \<Rightarrow> worksheet \<Rightarrow> summary_info \<Rightarrow> row \<Rightarrow> error + worksheet" where
  "stamp_info L ws i primera_fila =
     (let ws1 = set_cell ws (2, 4) (transportista i) in
      case fecha_strftime L (cell_of primera_fila ''FECHA FACTURA'') of
        None \<Rightarrow> Inl ValueError
      | Some _ \<Rightarrow>
          Inr (foldl (\<lambda>w (rc, v). set_cell w rc v) ws1
                 [((4, 4), embarque i), ((5, 4), air_waybill i),
                  ((2, 11), proveedor i), ((3, 11), incoterm i), ((4, 11), forma_pago i),
                  ((5, 11), estado i), ((6, 11), marca i)]))"

text \<open>
  The body of the \<open>try\<close> block of \<open>exportar_datos\<close>. The summary is read from
  \<open>df_filtered.iloc[0]\<close> before the test for an empty result.
\<close>

definition set_const :: "dataframe \<Rightarrow> string \<Rightarrow> cell \<Rightarrow> dataframe" where
  "set_const df c v = map_col df c (\<lambda>_. v)"

definition export_filtered :: "pylib \<Rightarrow> server \<Rightarrow> mode \<Rightarrow> string \<Rightarrow> error + dataframe" where
  "export_filtered L srv t v =
     and_then (load_and_join L srv) (\<lambda>df.
       filter_rows L t v
         (rename (set_const (set_const df ''Sub Total'' (Num 0)) ''Precio Total'' (Num 0))))"

definition export_body :: "pylib \<Rightarrow> server \<Rightarrow> mode \<Rightarrow> string \<Rightarrow> error + response" where
  "export_body L srv t v =
     and_then (export_filtered L srv t v) (\<lambda>df_filtered.
     and_then (iloc0 df_filtered) (\<lambda>primera_fila.
     and_then (make_info L (columns df_filtered) primera_fila) (\<lambda>i.
     and_then (select_cols df_filtered export_columns) (\<lambda>df_out.
       if rows df_out = [] then Inl (HTTPException 404)
       else
         and_then (read_file (plantilla srv)) (\<lambda>ws.
         and_then (append_to_table ws df_out) (\<lambda>ws.
         and_then (stamp_info L ws i primera_fila) (\<lambda>ws.
         Inr (FileResponse ws))))))))"

text \<open>
  \<open>POST /export\<close>. Only \<open>FileNotFoundError\<close> has a handler of its own (404); the
  handler for \<open>Exception\<close> turns everything else raised in the block into 500, the
  \<open>HTTPException\<close> of the block included, since it derives from \<open>Exception\<close>.
\<close>

definition exportar_datos :: "pylib \<Rightarrow> server \<Rightarrow> mode \<Rightarrow> string \<Rightarrow> nat + response" where
  "exportar_datos L srv t v =
     (if \<not> archivos_inicializados srv then Inl 503
      else case export_body L srv t v of
             Inr r \<Rightarrow> Inr r
           | Inl FileNotFound \<Rightarrow> Inl 404
           | Inl _ \<Rightarrow> Inl 500)"

section \<open>A concrete library for evaluation\<close>

text \<open>
  One instance of the library parameters, used to run the model on concrete inputs. It
  covers the plain part of each routine: patterns without a regular-expression
  metacharacter (on which a search is ASCII case-insensitive containment; any other pattern
  is rejected by this instance), numbers written as an optional sign, digits and an
  optional fraction, and dates written \<open>YYYY-MM-DD\<close>.
\<close>

definition to_lower :: "char \<Rightarrow> char" where
  "to_lower c =
     (let n = (of_char c :: nat) in if 65 \<le> n \<and> n \<le> 90 then char_of (n + 32) else c)"

definition contains_ci :: "string \<Rightarrow> string \<Rightarrow> bool" where
  "contains_ci v s = sublist (map to_lower v) (map to_lower s)"

definition metachars :: string where
  "metachars = ''.^$*+?{}[]()|'' @ [CHR 0x5C]"

definition plain_compile :: "string \<Rightarrow> (string \<Rightarrow> bool) option" where
  "plain_compile p = (if \<exists>c \<in> set p. c \<in> set metachars then None else Some (contains_ci p))"

definition digit_val :: "char \<Rightarrow> nat option" where
  "digit_val c =
     (let n = (of_char c :: nat) in if 48 \<le> n \<and> n \<le> 57 then Some (n - 48) else None)"

fun digits_val :: "nat \<Rightarrow> string \<Rightarrow> nat option" where
  "digits_val acc [] = Some acc"
| "digits_val acc (c # cs) =
     (case digit_val c of None \<Rightarrow> None | Some d \<Rightarrow> digits_val (10 * acc + d) cs)"

definition parse_unsigned :: "string \<Rightarrow> rat option" where
  "parse_unsigned s =
     (let ip = takeWhile (\<lambda>c. c \<noteq> CHR ''.'') s; rest = dropWhile (\<lambda>c. c \<noteq> CHR ''.'') s in
      if ip = [] then None
      else case rest of
             [] \<Rightarrow> map_option of_nat (digits_val 0 ip)
           | _ # fp \<Rightarrow>
               if fp = [] then None
               else case (digits_val 0 ip, digits_val 0 fp) of
                      (Some a, Some b) \<Rightarrow> Some (of_nat a + of_nat b / 10 ^ length fp)
                    | _ \<Rightarrow> None)"

definition parse_decimal :: "string \<Rightarrow> rat option" where
  "parse_decimal s =
     (case s of
        [] \<Rightarrow> None
      | c # t \<Rightarrow>
          if c = CHR ''-'' then map_option uminus (parse_unsigned t)
          else if c = CHR ''+'' then parse_unsigned t
          else parse_unsigned s)"

definition plain_str_of_num :: "rat \<Rightarrow> string" where
  "plain_str_of_num q =
     (let (n, d) = quotient_of q;
          sgn = (if n < 0 then ''-'' else [])
      in if d = 1 then sgn @ dec (nat \<bar>n\<bar>)
         else sgn @ dec (nat \<bar>n\<bar>) @ ''/'' @ dec (nat d))"

definition plain_strftime :: "cell \<Rightarrow> string option" where
  "plain_strftime c =
     (case c of
        Str s \<Rightarrow>
          if length s = 10 \<and> s ! 4 = CHR ''-'' \<and> s ! 7 = CHR ''-''
          then Some (take 2 (drop 8 s) @ ''/'' @ take 2 (drop 5 s) @ ''/'' @ take 4 s)
          else None
      | _ \<Rightarrow> None)"

definition plain_lib :: pylib where
  "plain_lib =
     \<lparr> re_compile = plain_compile,
       float_of_str = (\<lambda>s. map_option Num (parse_decimal s)),
       str_of_num = plain_str_of_num,
       fecha_strftime = plain_strftime \<rparr>"

section \<open>Example tables\<close>

definition make_df :: "string list \<Rightarrow> cell list list \<Rightarrow> dataframe" where
  "make_df cols vals = \<lparr> columns = cols, rows = map (zip cols) vals \<rparr>"

definition demo_traduccion :: dataframe where
  "demo_traduccion =
     make_df [''Nro'', ''Modelo'', ''Codigo'', ''Descripcion'', ''Material'', ''Uso'', ''Marca'']
       [[Num 1, Str ''M1'', Str ''C1'', Str ''Sensor'', Str ''Acero'', Str ''Medicion'', Str ''ACME''],
        [Num 2, Str ''M1'', Str ''C2'', Str ''Sensor B'', Str ''Acero'', Str ''Medicion'', Str ''ACME''],
        [Num 3, Str ''M2'', Str ''C9'', Str ''Valvula'', Str ''Bronce'', Str ''Control'', Str ''VALCO''],
        [Num 4, Str ''M2'', Str ''C9'', Str ''Valvula B'', Str ''Bronce'', Str ''Control'', Str ''VALCO'']]"

definition compras_columns :: "string list" where
  "compras_columns =
     [''Item'', ''Cantidad'', ''Num_OC'', ''Num_invoice'', ''Codigo_Comercial'', ''PaisOrigen'',
      ''Moneda'', ''PCU1'', ''Flete_US$'', ''OperadorLogistico'', ''Fecha_Invoice'',
      ''GrupoImportacion'', ''Num_DocTransporte'', ''RazonSocial_Proveedor'', ''Incoterm'',
      ''Forma_Pago'', ''Status_OCI'']"

definition demo_compras :: dataframe where
  "demo_compras =
     make_df compras_columns
       [[Num 1, Str ''3'', Str ''OC-1'', Str ''F-1'', Str ''M1'', Str ''DE'', Str ''USD'',
         Str ''12.5'', NaN, Str ''DHL'', Str ''2024-03-05'', Str ''EMB-001'', Str ''AWB-77'',
         Str ''Proveedor SA'', Str ''FOB'', Str ''30 dias'', Str ''Abierto''],
        [Num 2, Num 2, Str ''OC-2'', Str ''F-2'', Str ''M9'', Str ''US'', Str ''USD'',
         Str ''abc'', Num 4, NaN, NaN, NaN, Str ''xaby'',
         Str ''Otro SA'', Str ''CIF'', NaN, Str ''Cerrado'']]"

definition demo_plantilla :: worksheet where
  "demo_plantilla =
     \<lparr> cells = Map.empty,
       tables = [''Tabla24'' \<mapsto> \<lparr> min_col = 2, min_row = 8, max_col = 16, max_row = 9 \<rparr>] \<rparr>"

definition demo_server :: server where
  "demo_server =
     \<lparr> archivos_inicializados = True,
       traduccion = Some demo_traduccion,
       compras = Some demo_compras,
       plantilla = Some demo_plantilla \<rparr>"

section \<open>Auxiliary notions for the properties\<close>

text \<open>
  The rows that \<open>df[~df[col].duplicated()]\<close> keeps, for a column read by \<open>f\<close>: a row
  stays when its value was not seen before.
\<close>

definition keep_first_from :: "'b list \<Rightarrow> ('a \<Rightarrow> 'b) \<Rightarrow> 'a list \<Rightarrow> 'a list" where
  "keep_first_from seen f xs =
     map fst (filter snd (zip xs (map Not (duplicated_from seen (map f xs)))))"

definition keep_first :: "('a \<Rightarrow> 'b) \<Rightarrow> 'a list \<Rightarrow> 'a list" where
  "keep_first f xs = keep_first_from [] f xs"

text \<open>A reference row with the two columns that the deduplicator adds.\<close>

definition tag_row :: "pylib \<Rightarrow> row \<Rightarrow> row" where
  "tag_row L r =
     AList.update ''Codigo_Comercial'' (cell_of r ''Modelo'')
       (AList.update ''ID'' (Str (composite_id L r)) r)"

text \<open>The lookup table that the example reference table gives.\<close>

definition demo_lookup :: dataframe where
  "demo_lookup =
     make_df [''Modelo'', ''Codigo'', ''Descripcion'', ''Material'', ''Uso'', ''Marca'', ''ID'',
              ''Codigo_Comercial'']
       [[Str ''M1'', Str ''C1'', Str ''Sensor'', Str ''Acero'', Str ''Medicion'', Str ''ACME'',
         Str ''M1-C1'', Str ''M1''],
        [Str ''M2'', Str ''C9'', Str ''Valvula'', Str ''Bronce'', Str ''Control'', Str ''VALCO'',
         Str ''M2-C9'', Str ''M2'']]"

text \<open>A renamed table with a missing shipment number, as the filter step receives it.\<close>

definition demo_filter_input :: dataframe where
  "demo_filter_input =
     make_df [col_embarque, ''Air Waybill'']
       [[Str ''EMB-001'', Str ''AWB-77''], [NaN, Str ''xaby'']]"

section \<open>Cell references\<close>

text \<open>
  \<open>openpyxl.utils.get_column_letter\<close>: column 1 is A, 26 is Z, 27 is AA. The source uses it
  to print the table range, whose boundaries come from \<open>range_boundaries\<close> and are in range.
\<close>

function column_letter :: "nat \<Rightarrow> string" where
  "column_letter n =
     (if n = 0 then [] else column_letter ((n - 1) div 26) @ [char_of (65 + (n - 1) mod 26)])"
  by pat_completeness auto
termination
  by (relation "measure id") auto

definition cell_ref :: "nat \<Rightarrow> nat \<Rightarrow> string" where
  "cell_ref c r = column_letter c @ dec r"

text \<open>
  The formula cells as the specification words them. An exported column sits at the
  table's left edge plus its position in the export projection. The sub-total cell of a row
  holds the product of the unit-price cell and the quantity cell of that row, the total
  cell the sum of the freight cell and the sub-total cell of that row.
\<close>

definition position :: "string \<Rightarrow> string list \<Rightarrow> nat" where
  "position n cs = length (takeWhile (\<lambda>c. c \<noteq> n) cs)"

definition column_of :: "table_ref \<Rightarrow> string \<Rightarrow> nat" where
  "column_of t n = min_col t + position n export_columns"

definition own_row_formulas :: "worksheet \<Rightarrow> table_ref \<Rightarrow> nat \<Rightarrow> bool" where
  "own_row_formulas ws t r =
     (cells ws (r, column_of t ''Sub Total'') =
        Some (Str (''='' @ cell_ref (column_of t ''Precio Unitario'') r
                   @ ''*'' @ cell_ref (column_of t ''Cant'') r))
      \<and> cells ws (r, column_of t ''Precio Total'') =
        Some (Str (''='' @ cell_ref (column_of t ''Flete'') r
                   @ ''+'' @ cell_ref (column_of t ''Sub Total'') r)))"

text \<open>The same, read off the sheet that \<open>append_to_table\<close> returns.\<close>

definition formulas_after_append :: "worksheet \<Rightarrow> dataframe \<Rightarrow> nat \<Rightarrow> bool" where
  "formulas_after_append ws df r =
     (case tables ws ''Tabla24'' of
        None \<Rightarrow> False
      | Some t \<Rightarrow> (case append_to_table ws df of
                     Inl e \<Rightarrow> False
                   | Inr ws' \<Rightarrow> own_row_formulas ws' t r))"

text \<open>One export-projected row, and a template whose table starts in column A.\<close>

definition demo_export :: dataframe where
  "demo_export =
     make_df export_columns
       [[Num 1, Str ''3'', Str ''OC-1'', Str ''F-1'', Str ''C1'', Str ''M1'', Str ''Sensor'',
         Str ''Acero'', Str ''Medicion'', Str ''DE'', Str ''USD'', Str ''12.5'', Num 0, NaN,
         Num 0]]"

definition demo_plantilla_a :: worksheet where
  "demo_plantilla_a =
     \<lparr> cells = Map.empty,
       tables = [''Tabla24'' \<mapsto> \<lparr> min_col = 1, min_row = 8, max_col = 15, max_row = 9 \<rparr>] \<rparr>"

section \<open>Properties of the endpoints on an empty filter result\<close>

text \<open>
  Claim C9. A read request (\<open>GET /data\<close>) whose filter step retains no rows is answered
  with status 200: the data is the empty list, the info is null and a message is present.
  The filter step is reached when the files are initialised and nothing before it raises.
\<close>

theorem datos_empty_ok:
  assumes "archivos_inicializados srv"
    and "datos_filtered L srv t v = Inr df"
    and "rows df = []"
  shows "obtener_datos L srv t v = Inr (JsonResponse [] None (Some (no_results t v)))"
  using assms by (simp add: obtener_datos_def datos_body_def and_then_def)

theorem datos_empty_ok_witness:
  "archivos_inicializados demo_server
   \<and> datos_filtered plain_lib demo_server Embarque ''zzz'' =
       Inr \<lparr> columns = map new_name read_columns, rows = [] \<rparr>
   \<and> obtener_datos plain_lib demo_server Embarque ''zzz'' =
       Inr (JsonResponse [] None (Some ''No se encontraron resultados para embarque: zzz''))"
proof -
  have i: "archivos_inicializados demo_server"
    by (simp add: demo_server_def)
  have h: "datos_filtered plain_lib demo_server Embarque ''zzz'' =
      Inr \<lparr> columns = map new_name read_columns, rows = [] \<rparr>"
    by code_simp
  have r: "rows \<lparr> columns = map new_name read_columns, rows = [] \<rparr> = []"
    by simp
  show ?thesis
    using datos_empty_ok [OF i h r] i h by (simp add: no_results_def mode_name_def)
qed

text \<open>
  Claim C1. The claim is that an export request (\<open>POST /export\<close>) whose filter step
  retains no rows fails with status 404. The code answers 500: \<open>df_filtered.iloc[0]\<close>
  is read before the test for an empty result and raises \<open>IndexError\<close>, which the
  handler for \<open>Exception\<close> reports as 500.
\<close>

theorem export_empty_is_500:
  assumes "archivos_inicializados srv"
    and "export_filtered L srv t v = Inr df"
    and "rows df = []"
  shows "exportar_datos L srv t v = Inl 500"
  using assms by (simp add: exportar_datos_def export_body_def and_then_def iloc0_def)

theorem export_empty_is_500_witness:
  "archivos_inicializados demo_server
   \<and> (case export_filtered plain_lib demo_server Embarque ''zzz'' of
         Inr df \<Rightarrow> rows df = [] | Inl e \<Rightarrow> False)
   \<and> exportar_datos plain_lib demo_server Embarque ''zzz'' = Inl 500"
proof -
  have i: "archivos_inicializados demo_server"
    by (simp add: demo_server_def)
  obtain df where h: "export_filtered plain_lib demo_server Embarque ''zzz'' = Inr df"
    and r: "rows df = []"
  proof -
    have "case export_filtered plain_lib demo_server Embarque ''zzz'' of
            Inr df \<Rightarrow> rows df = [] | Inl e \<Rightarrow> False"
      by code_simp
    then show ?thesis using that by (auto split: sum.splits)
  qed
  show ?thesis
    using export_empty_is_500 [OF i h r] i h r by simp
qed

section \<open>Properties of the reference deduplicator\<close>

lemma keep_first_from_Nil [simp]: "keep_first_from seen f [] = []"
  by (simp add: keep_first_from_def)

lemma keep_first_from_Cons [simp]:
  "keep_first_from seen f (x # xs) =
     (if f x \<in> set seen then keep_first_from (f x # seen) f xs
      else x # keep_first_from (f x # seen) f xs)"
  by (simp add: keep_first_from_def)

lemma keep_first_from_subseq: "subseq (keep_first_from seen f xs) xs"
  by (induction xs arbitrary: seen) auto

lemma keep_first_from_set: "set (keep_first_from seen f xs) \<subseteq> set xs"
  by (induction xs arbitrary: seen) auto

lemma keep_first_from_fresh: "x \<in> set (keep_first_from seen f xs) \<Longrightarrow> f x \<notin> set seen"
proof (induction xs arbitrary: seen)
  case Nil
  then show ?case by simp
next
  case (Cons a xs)
  then have "x = a \<and> f a \<notin> set seen \<or> x \<in> set (keep_first_from (f a # seen) f xs)"
    by (auto split: if_splits)
  then show ?case
  proof
    assume "x = a \<and> f a \<notin> set seen"
    then show ?thesis by simp
  next
    assume "x \<in> set (keep_first_from (f a # seen) f xs)"
    then have "f x \<notin> set (f a # seen)" by (rule Cons.IH)
    then show ?thesis by simp
  qed
qed

lemma keep_first_from_distinct: "distinct (map f (keep_first_from seen f xs))"
proof (induction xs arbitrary: seen)
  case Nil
  show ?case by simp
next
  case (Cons x xs)
  have "f x \<notin> f ` set (keep_first_from (f x # seen) f xs)"
    using keep_first_from_fresh [of _ "f x # seen" f xs] by fastforce
  with Cons show ?case by simp
qed

lemma keep_first_from_find:
  "find (\<lambda>r. f r = m) (keep_first_from seen f xs) =
     (if m \<in> set seen then None else find (\<lambda>r. f r = m) xs)"
proof (induction xs arbitrary: seen)
  case Nil
  show ?case by simp
next
  case (Cons x xs)
  show ?case by (auto simp: Cons)
qed

lemma keep_first_from_nths:
  "keep_first_from seen f xs =
     nths xs {i. f (xs ! i) \<notin> set seen \<and> (\<forall>j<i. f (xs ! j) \<noteq> f (xs ! i))}"
proof (induction xs arbitrary: seen)
  case Nil
  show ?case by simp
next
  case (Cons x xs)
  have eq: "{j. Suc j \<in> {i. f ((x # xs) ! i) \<notin> set seen \<and> (\<forall>j<i. f ((x # xs) ! j) \<noteq> f ((x # xs) ! i))}}
      = {i. f (xs ! i) \<notin> set (f x # seen) \<and> (\<forall>j<i. f (xs ! j) \<noteq> f (xs ! i))}"
    by (auto simp: less_Suc_eq_0_disj)
  show ?case
    unfolding nths_Cons eq by (simp add: Cons)
qed

lemma keep_first_from_map:
  "keep_first_from seen g (map h xs) = map h (keep_first_from seen (g \<circ> h) xs)"
  by (induction xs arbitrary: seen) auto


lemma keep_first_from_inj:
  "inj h \<Longrightarrow> keep_first_from (map h seen) (\<lambda>x. h (g x)) xs = keep_first_from seen g xs"
proof (induction xs arbitrary: seen)
  case Nil
  show ?case by simp
next
  case (Cons x xs)
  have m: "h (g x) \<in> set (map h seen) \<longleftrightarrow> g x \<in> set seen"
    using Cons.prems by (auto dest: injD)
  have "keep_first_from (h (g x) # map h seen) (\<lambda>x. h (g x)) xs = keep_first_from (g x # seen) g xs"
    using Cons.IH [OF Cons.prems, of "g x # seen"] by simp
  then show ?case using m by simp
qed

lemma cell_of_update:
  "cell_of (AList.update k v r) k' = (if k' = k then v else cell_of r k')"
  by (simp add: cell_of_def update_conv')

lemma set_col_rows:
  "rows (set_col df c (map g (rows df))) = map (\<lambda>r. AList.update c (g r) r) (rows df)"
  by (simp add: set_col_def zip_map2 zip_same_conv_map)

lemma select_rows_keep_first:
  "rows (select_rows df (map Not (duplicated (map g (rows df))))) = keep_first g (rows df)"
  by (simp add: select_rows_def keep_first_def keep_first_from_def duplicated_def)

lemma composite_id_tag: "composite_id L (tag_row L r) = composite_id L r"
  by (simp add: composite_id_def tag_row_def cell_of_update)

lemma modelo_tag: "cell_of (tag_row L r) ''Modelo'' = cell_of r ''Modelo''"
  by (simp add: tag_row_def cell_of_update)

lemma deduplicate_rows:
  assumes "deduplicate L a0 = Inr b"
  shows "rows b = map (tag_row L)
           (keep_first (\<lambda>r. cell_of r ''Modelo'')
              (keep_first (composite_id L) (rows (drop_first_col a0))))"
proof -
  define R where "R = rows (drop_first_col a0)"
  define u where "u = (\<lambda>r. AList.update ''ID'' (Str (composite_id L r)) r)"
  define a1 where "a1 = set_col (drop_first_col a0) ''ID'' (map (\<lambda>r. Str (composite_id L r)) R)"
  define b1 where "b1 = select_rows a1 (map Not (duplicated (map (\<lambda>r. cell_of r ''ID'') (rows a1))))"
  define b2 where "b2 = select_rows b1 (map Not (duplicated (map (\<lambda>r. cell_of r ''Modelo'') (rows b1))))"
  have b: "b = set_col b2 ''Codigo_Comercial'' (map (\<lambda>r. cell_of r ''Modelo'') (rows b2))"
    using assms
    by (simp add: deduplicate_def Let_def R_def a1_def b1_def b2_def split: if_splits)
  have r1: "rows a1 = map u R"
    unfolding a1_def R_def u_def by (rule set_col_rows)
  have "rows b1 = keep_first (\<lambda>r. cell_of r ''ID'') (rows a1)"
    unfolding b1_def by (rule select_rows_keep_first)
  also have "\<dots> = keep_first (\<lambda>r. cell_of r ''ID'') (map u R)"
    by (simp only: r1)
  also have "\<dots> = map u (keep_first (\<lambda>r. Str (composite_id L r)) R)"
    by (simp add: keep_first_def keep_first_from_map o_def u_def cell_of_update)
  also have "keep_first (\<lambda>r. Str (composite_id L r)) R = keep_first (composite_id L) R"
    using keep_first_from_inj [of Str "[]" "composite_id L" R]
    by (simp add: keep_first_def inj_def)
  finally have r2: "rows b1 = map u (keep_first (composite_id L) R)" .
  have "rows b2 = keep_first (\<lambda>r. cell_of r ''Modelo'') (rows b1)"
    unfolding b2_def by (rule select_rows_keep_first)
  also have "\<dots> = map u (keep_first (\<lambda>r. cell_of r ''Modelo'') (keep_first (composite_id L) R))"
    by (simp add: r2 keep_first_def keep_first_from_map o_def u_def cell_of_update)
  finally have r3: "rows b2 = map u (keep_first (\<lambda>r. cell_of r ''Modelo'') (keep_first (composite_id L) R))" .
  have "rows b = map (\<lambda>r. AList.update ''Codigo_Comercial'' (cell_of r ''Modelo'') r) (rows b2)"
    unfolding b by (rule set_col_rows)
  also have "\<dots> = map (tag_row L) (keep_first (\<lambda>r. cell_of r ''Modelo'') (keep_first (composite_id L) R))"
    by (simp add: r3 tag_row_def u_def cell_of_update)
  finally show ?thesis by (simp add: R_def)
qed

lemma find_map_row:
  "find P (map h xs) = map_option h (find (\<lambda>x. P (h x)) xs)"
  by (induction xs) auto

lemma subseq_distinct_map:
  assumes "subseq xs ys" and "distinct (map f ys)"
  shows "distinct (map f xs)"
proof -
  have "subseq (map f xs) (map f ys)"
    using assms(1) by (rule subseq_map)
  then obtain N where "map f xs = nths (map f ys) N"
    by (auto simp: subseq_conv_nths)
  with assms(2) show ?thesis by simp
qed

text \<open>
  Claim C3. Deduplication keeps the original order, and its two steps run in the order
  composite key, then \<open>Modelo\<close>: with \<open>K\<close> the rows that have no earlier row with the same
  composite key, the result is the rows of \<open>K\<close> that have no earlier row of \<open>K\<close> with the
  same \<open>Modelo\<close>, so that the surviving row for a \<open>Modelo\<close> value is the first row of
  \<open>K\<close> with that value.
\<close>

theorem deduplicate_first_survivor:
  assumes "deduplicate L a0 = Inr b"
    and "R = rows (drop_first_col a0)"
    and "K = nths R {i. \<forall>j<i. composite_id L (R ! j) \<noteq> composite_id L (R ! i)}"
  shows "subseq (rows b) (map (tag_row L) R)
       \<and> rows b = map (tag_row L)
           (nths K {i. \<forall>j<i. cell_of (K ! j) ''Modelo'' \<noteq> cell_of (K ! i) ''Modelo''})
       \<and> (\<forall>m. find (\<lambda>r. cell_of r ''Modelo'' = m) (rows b)
              = map_option (tag_row L) (find (\<lambda>r. cell_of r ''Modelo'' = m) K))"
proof -
  have K: "K = keep_first (composite_id L) R"
    by (simp add: assms(3) keep_first_def keep_first_from_nths)
  have b: "rows b = map (tag_row L) (keep_first (\<lambda>r. cell_of r ''Modelo'') K)"
    using deduplicate_rows [OF assms(1)] by (simp add: K assms(2))
  have "subseq (keep_first (\<lambda>r. cell_of r ''Modelo'') K) K"
    unfolding keep_first_def by (rule keep_first_from_subseq)
  moreover have "subseq K R"
    unfolding K keep_first_def by (rule keep_first_from_subseq)
  ultimately have "subseq (keep_first (\<lambda>r. cell_of r ''Modelo'') K) R"
    by (rule subseq_order.trans)
  then have 1: "subseq (rows b) (map (tag_row L) R)"
    unfolding b by (rule subseq_map)
  have 2: "rows b = map (tag_row L)
           (nths K {i. \<forall>j<i. cell_of (K ! j) ''Modelo'' \<noteq> cell_of (K ! i) ''Modelo''})"
    unfolding b by (simp add: keep_first_def keep_first_from_nths)
  have 3: "find (\<lambda>r. cell_of r ''Modelo'' = m) (rows b)
              = map_option (tag_row L) (find (\<lambda>r. cell_of r ''Modelo'' = m) K)" for m
    unfolding b by (simp add: find_map_row modelo_tag keep_first_def keep_first_from_find)
  from 1 2 3 show ?thesis by blast
qed

theorem deduplicate_first_survivor_witness:
  "deduplicate plain_lib demo_traduccion = Inr demo_lookup
   \<and> subseq (rows demo_lookup) (map (tag_row plain_lib) (rows (drop_first_col demo_traduccion)))
   \<and> find (\<lambda>r. cell_of r ''Modelo'' = Str ''M1'') (rows demo_lookup)
       = map_option (tag_row plain_lib)
           (find (\<lambda>r. cell_of r ''Modelo'' = Str ''M1'')
              (nths (rows (drop_first_col demo_traduccion))
                 {i. \<forall>j<i. composite_id plain_lib (rows (drop_first_col demo_traduccion) ! j)
                            \<noteq> composite_id plain_lib (rows (drop_first_col demo_traduccion) ! i)}))
   \<and> map (\<lambda>r. cell_of r ''Codigo'') (rows demo_lookup) = [Str ''C1'', Str ''C9'']"
proof -
  have h: "deduplicate plain_lib demo_traduccion = Inr demo_lookup"
    by code_simp
  have c: "map (\<lambda>r. cell_of r ''Codigo'') (rows demo_lookup) = [Str ''C1'', Str ''C9'']"
    by code_simp
  show ?thesis
    using deduplicate_first_survivor [OF h refl refl] h c by blast
qed

text \<open>
  Claim C4. After deduplication every \<open>Modelo\<close> value, every \<open>Codigo_Comercial\<close> value
  and every composite key occurs in at most one row of the lookup table;
  \<open>Codigo_Comercial\<close> is a copy of \<open>Modelo\<close> and \<open>ID\<close> holds the composite key.
\<close>

theorem deduplicate_unique_keys:
  assumes "deduplicate L a0 = Inr b"
  shows "distinct (map (\<lambda>r. cell_of r ''Modelo'') (rows b))
       \<and> distinct (map (\<lambda>r. cell_of r ''Codigo_Comercial'') (rows b))
       \<and> distinct (map (composite_id L) (rows b))
       \<and> (\<forall>r \<in> set (rows b). cell_of r ''Codigo_Comercial'' = cell_of r ''Modelo''
                              \<and> cell_of r ''ID'' = Str (composite_id L r))"
proof -
  define K where "K = keep_first (composite_id L) (rows (drop_first_col a0))"
  define M where "M = keep_first (\<lambda>r. cell_of r ''Modelo'') K"
  have b: "rows b = map (tag_row L) M"
    using deduplicate_rows [OF assms] by (simp add: K_def M_def)
  have cc: "cell_of (tag_row L r) ''Codigo_Comercial'' = cell_of r ''Modelo''" for r
    by (simp add: tag_row_def cell_of_update)
  have idc: "cell_of (tag_row L r) ''ID'' = Str (composite_id L r)" for r
    by (simp add: tag_row_def cell_of_update)
  have dM: "distinct (map (\<lambda>r. cell_of r ''Modelo'') M)"
    unfolding M_def keep_first_def by (rule keep_first_from_distinct)
  have "distinct (map (composite_id L) K)"
    unfolding K_def keep_first_def by (rule keep_first_from_distinct)
  moreover have "subseq M K"
    unfolding M_def keep_first_def by (rule keep_first_from_subseq)
  ultimately have dK: "distinct (map (composite_id L) M)"
    by (rule subseq_distinct_map [rotated])
  have 1: "distinct (map (\<lambda>r. cell_of r ''Modelo'') (rows b))"
    using dM by (simp add: b o_def modelo_tag)
  have 2: "distinct (map (\<lambda>r. cell_of r ''Codigo_Comercial'') (rows b))"
    using dM by (simp add: b o_def cc)
  have 3: "distinct (map (composite_id L) (rows b))"
    using dK by (simp add: b o_def composite_id_tag)
  have 4: "\<forall>r \<in> set (rows b). cell_of r ''Codigo_Comercial'' = cell_of r ''Modelo''
                              \<and> cell_of r ''ID'' = Str (composite_id L r)"
    by (auto simp: b cc idc modelo_tag composite_id_tag)
  from 1 2 3 4 show ?thesis by blast
qed

theorem deduplicate_unique_keys_witness:
  "deduplicate plain_lib demo_traduccion = Inr demo_lookup
   \<and> distinct (map (\<lambda>r. cell_of r ''Modelo'') (rows demo_lookup))
   \<and> distinct (map (\<lambda>r. cell_of r ''Codigo_Comercial'') (rows demo_lookup))
   \<and> distinct (map (composite_id plain_lib) (rows demo_lookup))
   \<and> length (rows demo_traduccion) = 4 \<and> length (rows demo_lookup) = 2"
proof -
  have h: "deduplicate plain_lib demo_traduccion = Inr demo_lookup"
    by code_simp
  have n: "length (rows demo_traduccion) = 4 \<and> length (rows demo_lookup) = 2"
    by (simp add: demo_traduccion_def demo_lookup_def make_df_def)
  show ?thesis
    using deduplicate_unique_keys [OF h] h n by blast
qed

section \<open>Properties of the join\<close>








section \<open>Properties of the numeric normalisation\<close>

lemma map_col_rows: "rows (map_col df c f) = map (\<lambda>r. AList.update c (f r) r) (rows df)"
  unfolding map_col_def by (rule set_col_rows)




section \<open>Properties of the read response\<close>


lemma select_cols_columns: "select_cols df cs = Inr d \<Longrightarrow> columns d = cs"
  by (auto simp: select_cols_def split: list.splits)

lemma filter_rows_columns: "filter_rows L t v df = Inr d \<Longrightarrow> columns d = columns df"
  by (auto simp: filter_rows_def and_then_def select_rows_def split: sum.splits)

lemma datos_filtered_columns:
  "datos_filtered L srv t v = Inr df \<Longrightarrow> columns df = map new_name read_columns"
  by (auto simp: datos_filtered_def and_then_def rename_def
           dest!: filter_rows_columns select_cols_columns split: sum.splits)

lemma fecha_in_read_columns: "''FECHA FACTURA'' \<in> set (map new_name read_columns)"
  by code_simp



lemma replaced_rows:
  assumes "''FECHA FACTURA'' \<in> set (columns df)"
  shows "rows (stringify_fecha L (replace_nonfinite df)) =
     map (\<lambda>r. AList.update ''FECHA FACTURA''
                (Str (py_str L (cell_of (map (\<lambda>(n, v). (n, replace_value v)) r) ''FECHA FACTURA'')))
                (map (\<lambda>(n, v). (n, replace_value v)) r)) (rows df)"
  using assms by (simp add: stringify_fecha_def replace_nonfinite_def map_col_rows o_def)




section \<open>Properties of the summary record\<close>

lemma select_cols_names: "select_cols df cs = Inr d \<Longrightarrow> r \<in> set (rows d) \<Longrightarrow> map fst r = cs"
  by (auto simp: select_cols_def o_def split: list.splits)

lemma rename_names: "r \<in> set (rows (rename df)) \<Longrightarrow> \<exists>r0 \<in> set (rows df). map fst r = map new_name (map fst r0)"
  by (auto simp: rename_def o_def split_def)

lemma select_rows_subset: "set (rows (select_rows df keep)) \<subseteq> set (rows df)"
  by (auto simp: select_rows_def dest: set_zip_leftD)

lemma filter_rows_subset: "filter_rows L t v df = Inr d \<Longrightarrow> set (rows d) \<subseteq> set (rows df)"
  using select_rows_subset
  by (auto simp: filter_rows_def and_then_def split: sum.splits)

lemma datos_filtered_names:
  assumes "datos_filtered L srv t v = Inr df" and "r \<in> set (rows df)"
  shows "map fst r = map new_name read_columns"
proof -
  from assms(1) obtain d1 d2 where s: "select_cols d1 read_columns = Inr d2"
    and f: "filter_rows L t v (rename d2) = Inr df"
    by (auto simp: datos_filtered_def and_then_def split: sum.splits)
  from filter_rows_subset [OF f] assms(2) have "r \<in> set (rows (rename d2))"
    by blast
  then obtain r0 where "r0 \<in> set (rows d2)" and "map fst r = map new_name (map fst r0)"
    using rename_names by blast
  then show ?thesis
    using select_cols_names [OF s] by simp
qed

lemma cell_of_replaced:
  assumes "k \<in> set (map fst r)"
  shows "cell_of (map (\<lambda>(n, v). (n, replace_value v)) r) k = replace_value (cell_of r k)"
proof -
  from assms obtain v where "map_of r k = Some v"
    by (metis map_of_eq_None_iff not_None_eq set_map)
  then show ?thesis
    by (simp add: cell_of_def map_of_map)
qed

lemma isna_replaced_str: "isna c \<Longrightarrow> py_str L (replace_value c) = ''None''"
  by (cases c) simp_all

lemma info_columns_present: "filter (\<lambda>c. c \<notin> set (map new_name read_columns)) info_columns = []"
  by code_simp

lemma make_info_read:
  "make_info L (map new_name read_columns) r = Inr
          \<lparr> transportista = or_empty (cell_of r ''TRANSPORTISTA''),
            fecha_factura = str_or_empty L (cell_of r ''FECHA FACTURA''),
            embarque = or_empty (cell_of r col_embarque),
            air_waybill = or_empty (cell_of r ''Air Waybill''),
            marca = or_empty (cell_of r ''Marca''),
            proveedor = or_empty (cell_of r ''PROVEEDOR''),
            incoterm = or_empty (cell_of r ''INCOTERM''),
            forma_pago = or_empty (cell_of r ''FORMA DE PAGO''),
            estado = or_empty (cell_of r ''ESTADO'') \<rparr>"
  unfolding make_info_def info_columns_present by simp

lemma stringify_columns: "columns (stringify_fecha L (replace_nonfinite df)) = columns df"
  by (simp add: stringify_fecha_def replace_nonfinite_def map_col_def set_col_def)

text \<open>
  Claim C8. The claim is that every field of the summary record is the empty string when
  its source value is missing. On the read path the invoice date is not: the
  \<open>FECHA FACTURA\<close> column is turned into strings (line 247) before the summary is built, a
  missing date has become the string \<open>None\<close> by then, and the \<open>pd.notna\<close> test of line 251
  always succeeds.
\<close>

theorem datos_info_fecha_of_missing:
  assumes "archivos_inicializados srv"
    and "datos_filtered L srv t v = Inr df"
    and "rows df = r # rest"
    and "isna (cell_of r ''FECHA FACTURA'')"
  shows "\<exists>rs i. obtener_datos L srv t v = Inr (JsonResponse rs (Some i) None)
              \<and> fecha_factura i = Str ''None''"
proof -
  define df' where "df' = stringify_fecha L (replace_nonfinite df)"
  define r0 where "r0 = map (\<lambda>(n, v). (n, replace_value v)) r"
  define r' where "r' = AList.update ''FECHA FACTURA'' (Str (py_str L (cell_of r0 ''FECHA FACTURA''))) r0"
  have cols: "columns df = map new_name read_columns"
    using assms(2) by (rule datos_filtered_columns)
  have fc: "''FECHA FACTURA'' \<in> set (columns df)"
    using cols fecha_in_read_columns by simp
  have names: "map fst r = map new_name read_columns"
    using datos_filtered_names [OF assms(2)] assms(3) by simp
  have "rows df' = r' # map (\<lambda>r. AList.update ''FECHA FACTURA''
                (Str (py_str L (cell_of (map (\<lambda>(n, v). (n, replace_value v)) r) ''FECHA FACTURA'')))
                (map (\<lambda>(n, v). (n, replace_value v)) r)) rest"
    unfolding df'_def replaced_rows [OF fc] by (simp add: assms(3) r'_def r0_def)
  then have i0: "iloc0 df' = Inr r'"
    by (simp add: iloc0_def)
  have "cell_of r0 ''FECHA FACTURA'' = replace_value (cell_of r ''FECHA FACTURA'')"
    unfolding r0_def using names fecha_in_read_columns by (intro cell_of_replaced) simp
  then have fe: "cell_of r' ''FECHA FACTURA'' = Str ''None''"
    by (simp add: r'_def cell_of_update isna_replaced_str [OF assms(4)])
  obtain i where mi: "make_info L (columns df') r' = Inr i"
    and fi: "fecha_factura i = str_or_empty L (cell_of r' ''FECHA FACTURA'')"
    by (simp add: df'_def stringify_columns cols make_info_read)
  have "datos_body L srv t v = Inr (JsonResponse (rows df') (Some i) None)"
    using assms(2,3) i0 mi by (simp add: datos_body_def and_then_def Let_def df'_def)
  then have "obtener_datos L srv t v = Inr (JsonResponse (rows df') (Some i) None)"
    using assms(1) by (simp add: obtener_datos_def)
  moreover have "fecha_factura i = Str ''None''"
    by (simp add: fi fe str_or_empty_def notna_def)
  ultimately show ?thesis by blast
qed

theorem datos_info_fecha_of_missing_witness:
  "archivos_inicializados demo_server
   \<and> (case datos_filtered plain_lib demo_server Waybill ''ab'' of
        Inl e \<Rightarrow> False
      | Inr df \<Rightarrow> map (\<lambda>r. cell_of r ''FECHA FACTURA'') (rows df) = [NaN])
   \<and> (\<exists>rs i. obtener_datos plain_lib demo_server Waybill ''ab'' = Inr (JsonResponse rs (Some i) None)
              \<and> fecha_factura i = Str ''None'')"
proof -
  have a: "archivos_inicializados demo_server"
    by (simp add: demo_server_def)
  have e: "case datos_filtered plain_lib demo_server Waybill ''ab'' of
        Inl e \<Rightarrow> False
      | Inr df \<Rightarrow> map (\<lambda>r. cell_of r ''FECHA FACTURA'') (rows df) = [NaN]"
    by code_simp
  then obtain df where f: "datos_filtered plain_lib demo_server Waybill ''ab'' = Inr df"
    and v: "map (\<lambda>r. cell_of r ''FECHA FACTURA'') (rows df) = [NaN]"
    by (auto split: sum.splits)
  from v obtain r where r: "rows df = r # []" and n: "cell_of r ''FECHA FACTURA'' = NaN"
    by auto
  have "isna (cell_of r ''FECHA FACTURA'')"
    by (simp add: n)
  from datos_info_fecha_of_missing [OF a f r this] a e show ?thesis
    by blast
qed

section \<open>Properties of the filter\<close>

lemma select_by_predicate: "map fst (filter snd (zip xs (map p xs))) = filter p xs"
  by (induction xs) auto

lemma filter_rows_compiled:
  assumes "re_compile L v = Some search"
    and "target_column t \<in> set (columns df)"
  shows "filter_rows L t v df =
     Inr \<lparr> columns = columns df,
           rows = filter (\<lambda>r. search (py_str L (cell_of r (target_column t)))) (rows df) \<rparr>"
  using assms
  by (simp add: filter_rows_def and_then_def get_col_def str_contains_def astype_str_def
        select_rows_def o_def select_by_predicate)

text \<open>
  Claim C2. The claim is that a row is retained exactly when the string of its target
  column contains the value, ignoring case, and that a row whose target value is missing
  is never retained. The code converts the column with \<open>astype(str)\<close> first, so a missing
  value is the string \<open>nan\<close> when the pattern is applied and \<open>na=False\<close> has nothing left
  to act on: such a row is retained by every value that matches \<open>nan\<close>.
\<close>

theorem filter_rows_keeps_missing:
  assumes "re_compile L v = Some search"
    and "search ''nan''"
    and "target_column t \<in> set (columns df)"
    and "r \<in> set (rows df)"
    and "cell_of r (target_column t) = NaN"
  shows "\<exists>d. filter_rows L t v df = Inr d \<and> r \<in> set (rows d)"
  using assms(2,4,5) by (simp add: filter_rows_compiled [OF assms(1,3)])

theorem filter_rows_keeps_missing_witness:
  "plain_compile ''NAN'' = Some (contains_ci ''NAN'')
   \<and> contains_ci ''NAN'' ''nan''
   \<and> cell_of [(col_embarque, NaN), (''Air Waybill'', Str ''xaby'')] (target_column Embarque) = NaN
   \<and> (\<exists>d. filter_rows plain_lib Embarque ''NAN'' demo_filter_input = Inr d
          \<and> [(col_embarque, NaN), (''Air Waybill'', Str ''xaby'')] \<in> set (rows d))
   \<and> (case obtener_datos plain_lib demo_server Embarque ''NAN'' of
         Inl e \<Rightarrow> False
       | Inr resp \<Rightarrow> map (\<lambda>r. (cell_of r ''Item'', cell_of r col_embarque)) (data resp)
                      = [(Num 2, PyNone)])"
proof -
  have 0: "case obtener_datos plain_lib demo_server Embarque ''NAN'' of
         Inl e \<Rightarrow> False
       | Inr resp \<Rightarrow> map (\<lambda>r. (cell_of r ''Item'', cell_of r col_embarque)) (data resp)
                      = [(Num 2, PyNone)]"
    by code_simp
  have 1: "re_compile plain_lib ''NAN'' = Some (contains_ci ''NAN'')"
    by (simp add: plain_lib_def plain_compile_def metachars_def)
  have 2: "contains_ci ''NAN'' ''nan''"
    by code_simp
  have 3: "target_column Embarque \<in> set (columns demo_filter_input)"
    by code_simp
  have 4: "[(col_embarque, NaN), (''Air Waybill'', Str ''xaby'')] \<in> set (rows demo_filter_input)"
    by code_simp
  have 5: "cell_of [(col_embarque, NaN), (''Air Waybill'', Str ''xaby'')] (target_column Embarque) = NaN"
    by code_simp
  have 6: "plain_compile ''NAN'' = Some (contains_ci ''NAN'')"
    using 1 by (simp add: plain_lib_def)
  from filter_rows_keeps_missing [OF 1 2 3 4 5] 0 2 5 6 show ?thesis
    by blast
qed

section \<open>Properties of the spreadsheet exporter\<close>

lemma write_row_tables [simp]: "tables (write_row ws r c vs) = tables ws"
  by (induction vs arbitrary: ws c) (auto simp: put_cell_def set_cell_def)

lemma put_cell_cells:
  "cells (put_cell ws rc v) rc' = (if rc' = rc \<and> v \<noteq> PyNone then Some v else cells ws rc')"
  by (simp add: put_cell_def set_cell_def)

lemma write_row_cells:
  "cells (write_row ws r c vs) (r', c') =
     (if r' = r \<and> c \<le> c' \<and> c' < c + length vs \<and> vs ! (c' - c) \<noteq> PyNone
      then Some (vs ! (c' - c)) else cells ws (r', c'))"
proof (induction vs arbitrary: ws c)
  case Nil
  show ?case by auto
next
  case (Cons v vs)
  have step: "cells (write_row ws r c (v # vs)) (r', c') =
      (if r' = r \<and> Suc c \<le> c' \<and> c' < Suc c + length vs \<and> vs ! (c' - Suc c) \<noteq> PyNone
       then Some (vs ! (c' - Suc c)) else cells (put_cell ws (r, c) v) (r', c'))"
    by (simp only: write_row.simps Cons)
  consider "c' < c" | "c' = c" | "Suc c \<le> c'" by linarith
  then show ?case
  proof cases
    case 1
    then show ?thesis unfolding step by (simp add: put_cell_cells)
  next
    case 2
    then show ?thesis unfolding step by (simp add: put_cell_cells)
  next
    case 3
    then have "c' - c = Suc (c' - Suc c)" by simp
    with 3 show ?thesis unfolding step by (auto simp: put_cell_cells)
  qed
qed

lemma write_rows_tables [simp]: "tables (fst (write_rows ws r mc rs lr)) = tables ws"
  by (induction rs arbitrary: ws r lr) auto

lemma write_rows_last:
  "snd (write_rows ws r mc rs lr) = (if rs = [] then lr else r + length rs - 1)"
  by (induction rs arbitrary: ws r lr) auto

lemma write_rows_cells:
  "cells (fst (write_rows ws r mc rs lr)) (r', c') =
     (if r \<le> r' \<and> r' < r + length rs \<and> mc \<le> c' \<and> c' < mc + length (rs ! (r' - r))
         \<and> rs ! (r' - r) ! (c' - mc) \<noteq> PyNone
      then Some (rs ! (r' - r) ! (c' - mc)) else cells ws (r', c'))"
proof (induction rs arbitrary: ws r lr)
  case Nil
  show ?case by auto
next
  case (Cons vs rs)
  have step: "cells (fst (write_rows ws r mc (vs # rs) lr)) (r', c') =
     (if Suc r \<le> r' \<and> r' < Suc r + length rs \<and> mc \<le> c' \<and> c' < mc + length (rs ! (r' - Suc r))
         \<and> rs ! (r' - Suc r) ! (c' - mc) \<noteq> PyNone
      then Some (rs ! (r' - Suc r) ! (c' - mc)) else cells (write_row ws r mc vs) (r', c'))"
    by (simp only: write_rows.simps Cons)
  consider "r' < r" | "r' = r" | "Suc r \<le> r'" by linarith
  then show ?case
  proof cases
    case 1
    then show ?thesis unfolding step by (simp add: write_row_cells)
  next
    case 2
    then show ?thesis unfolding step by (simp add: write_row_cells)
  next
    case 3
    then have d: "r' - r = Suc (r' - Suc r)" by simp
    have n: "r' \<noteq> r" "r \<le> r'" "(r' < r + length (vs # rs)) = (r' < Suc r + length rs)"
      using 3 by auto
    show ?thesis unfolding step
      by (simp only: d nth_Cons_Suc n write_row_cells) (simp add: 3)
  qed
qed

lemma set_cell_cells:
  "cells (set_cell ws rc v) rc' = (if rc' = rc then Some v else cells ws rc')"
  by (simp add: set_cell_def)

lemma set_cell_tables [simp]: "tables (set_cell ws rc v) = tables ws"
  by (simp add: set_cell_def)

lemma write_formula_row_cells:
  "cells (write_formula_row ws r) (r', c') =
     (if r' = r \<and> c' = 16 then Some (Str (precio_total_formula r))
      else if r' = r \<and> c' = 14 then Some (Str (sub_total_formula r))
      else cells ws (r', c'))"
  by (simp add: write_formula_row_def set_cell_cells )

lemma foldl_formula_cells:
  "cells (foldl write_formula_row ws [s ..< e]) (r', c') =
     (if s \<le> r' \<and> r' < e \<and> c' = 16 then Some (Str (precio_total_formula r'))
      else if s \<le> r' \<and> r' < e \<and> c' = 14 then Some (Str (sub_total_formula r'))
      else cells ws (r', c'))"
proof (induction e)
  case 0
  show ?case by simp
next
  case (Suc e)
  show ?case
  proof (cases "s \<le> e")
    case True
    then have u: "[s ..< Suc e] = [s ..< e] @ [e]"
      by simp
    have "cells (foldl write_formula_row ws [s ..< Suc e]) (r', c') =
      (if r' = e \<and> c' = 16 then Some (Str (precio_total_formula e))
       else if r' = e \<and> c' = 14 then Some (Str (sub_total_formula e))
       else if s \<le> r' \<and> r' < e \<and> c' = 16 then Some (Str (precio_total_formula r'))
       else if s \<le> r' \<and> r' < e \<and> c' = 14 then Some (Str (sub_total_formula r'))
       else cells ws (r', c'))"
      by (simp only: u foldl_append foldl.simps write_formula_row_cells Suc)
    also have "\<dots> =
      (if s \<le> r' \<and> r' < Suc e \<and> c' = 16 then Some (Str (precio_total_formula r'))
       else if s \<le> r' \<and> r' < Suc e \<and> c' = 14 then Some (Str (sub_total_formula r'))
       else cells ws (r', c'))"
      using True by (auto simp: less_Suc_eq)
    finally show ?thesis .
  next
    case False
    then show ?thesis by auto
  qed
qed

lemma foldl_formula_tables [simp]: "tables (foldl write_formula_row ws xs) = tables ws"
  by (induction xs arbitrary: ws) (auto simp: write_formula_row_def)

lemma export_positions:
  "position ''Cant'' export_columns = 1"
  "position ''Precio Unitario'' export_columns = 11"
  "position ''Sub Total'' export_columns = 12"
  "position ''Flete'' export_columns = 13"
  "position ''Precio Total'' export_columns = 14"
  by code_simp+

lemma formula_letters:
  "column_letter 3 = ''C''" "column_letter 13 = ''M''" "column_letter 14 = ''N''"
  "column_letter 15 = ''O''"
  by code_simp+

lemma formulas_as_refs:
  "sub_total_formula r = ''='' @ cell_ref 13 r @ ''*'' @ cell_ref 3 r"
  "precio_total_formula r = ''='' @ cell_ref 15 r @ ''+'' @ cell_ref 14 r"
  unfolding sub_total_formula_def precio_total_formula_def cell_ref_def formula_letters
  by simp_all

lemma append_to_table_eq:
  assumes "tables ws ''Tabla24'' = Some t" and "rows df \<noteq> []"
  shows "append_to_table ws df =
     Inr (write_formulas
            ((fst (write_rows ws (max_row t + 1) (min_col t) (map (map snd) (rows df)) (max_row t)))
               \<lparr>tables := (tables ws)(''Tabla24'' \<mapsto> t\<lparr>max_row := max_row t + length (rows df)\<rparr>)\<rparr>)
            (max_row t + 1) (max_row t + length (rows df)))"
proof -
  have l: "snd (write_rows ws (max_row t + 1) (min_col t) (map (map snd) (rows df)) (max_row t))
      = max_row t + length (rows df)"
    using assms(2) by (simp add: write_rows_last)
  show ?thesis
    using assms(1) l by (simp add: append_to_table_def Let_def case_prod_beta)
qed

text \<open>
  Claim C7, as amended. For an export of \<open>n \<ge> 1\<close> rows the rows are written from the
  first row below the table, starting in the table's first column; the table range is
  extended by exactly \<open>n\<close> rows, its columns and first row unchanged; and in every new row
  the cells of the fixed columns N and P hold formulas over cells of the same row,
  \<open>=M*C\<close> and \<open>=O+N\<close>. These are the product of the unit price and the quantity of the
  row, and that product plus the freight of the row, when the table starts in column B.
\<close>

theorem append_to_table_rows_and_formulas:
  assumes "tables ws ''Tabla24'' = Some t"
    and "rows df \<noteq> []"
  shows "\<exists>ws'. append_to_table ws df = Inr ws'
     \<and> tables ws' ''Tabla24'' = Some (t\<lparr>max_row := max_row t + length (rows df)\<rparr>)
     \<and> (\<forall>k<length (rows df). \<forall>j<length (rows df ! k).
           min_col t + j \<noteq> 14 \<and> min_col t + j \<noteq> 16 \<and> snd (rows df ! k ! j) \<noteq> PyNone
           \<longrightarrow> cells ws' (max_row t + 1 + k, min_col t + j) = Some (snd (rows df ! k ! j)))
     \<and> (\<forall>k<length (rows df).
           cells ws' (max_row t + 1 + k, 14) = Some (Str (sub_total_formula (max_row t + 1 + k)))
         \<and> cells ws' (max_row t + 1 + k, 16) = Some (Str (precio_total_formula (max_row t + 1 + k))))
     \<and> (\<forall>r. sub_total_formula r = ''='' @ cell_ref 13 r @ ''*'' @ cell_ref 3 r
            \<and> precio_total_formula r = ''='' @ cell_ref 15 r @ ''+'' @ cell_ref 14 r)
     \<and> (min_col t = 2 \<longrightarrow> (\<forall>k<length (rows df). own_row_formulas ws' t (max_row t + 1 + k)))"
proof -
  define n where "n = length (rows df)"
  define vals where "vals = map (map snd) (rows df)"
  define ws1 where "ws1 = fst (write_rows ws (max_row t + 1) (min_col t) vals (max_row t))"
  define ws' where "ws' = write_formulas
      (ws1\<lparr>tables := (tables ws)(''Tabla24'' \<mapsto> t\<lparr>max_row := max_row t + n\<rparr>)\<rparr>)
      (max_row t + 1) (max_row t + n)"
  have a: "append_to_table ws df = Inr ws'"
    unfolding ws'_def ws1_def vals_def n_def by (rule append_to_table_eq [OF assms])
  have tb: "tables ws' ''Tabla24'' = Some (t\<lparr>max_row := max_row t + n\<rparr>)"
    by (simp add: ws'_def write_formulas_def)
  have cf: "cells ws' (r', c') =
     (if max_row t + 1 \<le> r' \<and> r' < max_row t + n + 1 \<and> c' = 16
        then Some (Str (precio_total_formula r'))
      else if max_row t + 1 \<le> r' \<and> r' < max_row t + n + 1 \<and> c' = 14
        then Some (Str (sub_total_formula r'))
      else cells ws1 (r', c'))" for r' c'
    unfolding ws'_def write_formulas_def foldl_formula_cells by simp
  have vl: "length vals = n"
    by (simp add: vals_def n_def)
  have 2: "cells ws' (max_row t + 1 + k, min_col t + j) = Some (snd (rows df ! k ! j))"
    if "k < n" "j < length (rows df ! k)" "min_col t + j \<noteq> 14" "min_col t + j \<noteq> 16"
       "snd (rows df ! k ! j) \<noteq> PyNone" for k j
  proof -
    have v: "vals ! k ! j = snd (rows df ! k ! j)" "length (vals ! k) = length (rows df ! k)"
      using that(1,2) by (simp_all add: vals_def n_def)
    have "cells ws' (max_row t + 1 + k, min_col t + j) = cells ws1 (max_row t + 1 + k, min_col t + j)"
      using that(3,4) by (simp add: cf)
    also have "\<dots> = Some (vals ! k ! j)"
      unfolding ws1_def write_rows_cells using that(1,2,5) v vl by simp
    finally show ?thesis by (simp add: v)
  qed
  have 3: "cells ws' (max_row t + 1 + k, 14) = Some (Str (sub_total_formula (max_row t + 1 + k)))
         \<and> cells ws' (max_row t + 1 + k, 16) = Some (Str (precio_total_formula (max_row t + 1 + k)))"
    if "k < n" for k
    using that by (simp add: cf)
  have 5: "own_row_formulas ws' t (max_row t + 1 + k)" if "min_col t = 2" "k < n" for k
    using 3 [OF that(2)] that(1)
    by (simp add: own_row_formulas_def column_of_def export_positions formulas_as_refs)
  from a tb 2 3 5 formulas_as_refs show ?thesis
    unfolding n_def by blast
qed

theorem append_to_table_rows_and_formulas_witness:
  "tables demo_plantilla ''Tabla24'' = Some \<lparr> min_col = 2, min_row = 8, max_col = 16, max_row = 9 \<rparr>
   \<and> rows demo_export \<noteq> []
   \<and> formulas_after_append demo_plantilla demo_export 10
   \<and> (case append_to_table demo_plantilla demo_export of
         Inl e \<Rightarrow> False
       | Inr ws' \<Rightarrow>
           tables ws' ''Tabla24'' = Some \<lparr> min_col = 2, min_row = 8, max_col = 16, max_row = 10 \<rparr>
         \<and> map (\<lambda>c. cells ws' (10, c)) [2, 3, 13, 14, 15, 16] =
             [Some (Num 1), Some (Str ''3''), Some (Str ''12.5''), Some (Str ''=M10*C10''),
              Some NaN, Some (Str ''=O10+N10'')])"
proof -
  have t: "tables demo_plantilla ''Tabla24'' =
      Some \<lparr> min_col = 2, min_row = 8, max_col = 16, max_row = 9 \<rparr>"
    by (simp add: demo_plantilla_def)
  have n: "rows demo_export \<noteq> []"
    by (simp add: demo_export_def make_df_def)
  have c: "case append_to_table demo_plantilla demo_export of
         Inl e \<Rightarrow> False
       | Inr ws' \<Rightarrow>
           tables ws' ''Tabla24'' = Some \<lparr> min_col = 2, min_row = 8, max_col = 16, max_row = 10 \<rparr>
         \<and> map (\<lambda>c. cells ws' (10, c)) [2, 3, 13, 14, 15, 16] =
             [Some (Num 1), Some (Str ''3''), Some (Str ''12.5''), Some (Str ''=M10*C10''),
              Some NaN, Some (Str ''=O10+N10'')]"
    by code_simp
  have l: "length (rows demo_export) = 1"
    by (simp add: demo_export_def make_df_def)
  from append_to_table_rows_and_formulas [OF t n] obtain ws' where
    a: "append_to_table demo_plantilla demo_export = Inr ws'"
    and f: "\<forall>k<length (rows demo_export).
        own_row_formulas ws' \<lparr> min_col = 2, min_row = 8, max_col = 16, max_row = 9 \<rparr> (9 + 1 + k)"
    by auto
  from f l have "own_row_formulas ws' \<lparr> min_col = 2, min_row = 8, max_col = 16, max_row = 9 \<rparr> 10"
    by simp
  then have "formulas_after_append demo_plantilla demo_export 10"
    by (simp add: formulas_after_append_def t a)
  with t n c show ?thesis by blast
qed

text \<open>
  Claim C7 as stated fails for a template whose table starts in column A: the formulas are
  still written to columns N and P and still read columns M, C and O, which then hold the
  sub-total, the purchase order number and the total of the row.
\<close>

theorem append_formulas_counterexample:
  "\<not> formulas_after_append demo_plantilla_a demo_export 10"
  by code_simp

end
